theory Spec2Isabelle
  imports Complex_Main
begin

section \<open>R values\<close>

text \<open>
  The generator \<^verbatim>\<open>create_market_analysis.py\<close> only writes out seven files; the behaviour
  lives in the R scripts it emits, and those are what is embedded here.

  A cell of a data frame is either a value or \<^verbatim>\<open>NA\<close>. It is modelled as an option, \<open>None\<close>
  being \<^verbatim>\<open>NA\<close>. For numbers \<open>None\<close> stands for every result that is not a finite number
  (\<^verbatim>\<open>NA\<close>, \<^verbatim>\<open>NaN\<close>, and the infinities a division by zero gives); the numbers read
  from the input tables are taken to be finite or \<^verbatim>\<open>NA\<close>. Numbers are reals: rounding of
  doubles is not modelled.
\<close>

type_synonym path = string
type_synonym numeric = "real option"
type_synonym character = "string option"
type_synonym logical = "bool option"

definition is_na :: "'a option \<Rightarrow> bool" where
  "is_na x = (x = None)"

definition r_eq :: "'a option \<Rightarrow> 'a option \<Rightarrow> logical" where
  "r_eq a b = (case a of None \<Rightarrow> None | Some x \<Rightarrow> (case b of None \<Rightarrow> None | Some y \<Rightarrow> Some (x = y)))"

definition r_ge :: "numeric \<Rightarrow> numeric \<Rightarrow> logical" where
  "r_ge a b = (case a of None \<Rightarrow> None | Some x \<Rightarrow> (case b of None \<Rightarrow> None | Some y \<Rightarrow> Some (x \<ge> y)))"

definition r_le :: "numeric \<Rightarrow> numeric \<Rightarrow> logical" where
  "r_le a b = (case a of None \<Rightarrow> None | Some x \<Rightarrow> (case b of None \<Rightarrow> None | Some y \<Rightarrow> Some (x \<le> y)))"

text \<open>R's \<^verbatim>\<open>&\<close>: \<^verbatim>\<open>FALSE & NA\<close> is \<^verbatim>\<open>FALSE\<close>, \<^verbatim>\<open>TRUE & NA\<close> is \<^verbatim>\<open>NA\<close>.\<close>

definition r_and :: "logical \<Rightarrow> logical \<Rightarrow> logical" where
  "r_and a b =
     (if a = Some False \<or> b = Some False then Some False
      else if a = Some True \<and> b = Some True then Some True
      else None)"

text \<open>
  dplyr's \<^verbatim>\<open>case_when\<close>: the value of the first clause whose condition is \<^verbatim>\<open>TRUE\<close>; a
  condition that is \<^verbatim>\<open>NA\<close> does not match; \<^verbatim>\<open>NA\<close> when no clause matches.
\<close>

fun case_when :: "(logical \<times> 'a) list \<Rightarrow> 'a option" where
  "case_when [] = None"
| "case_when ((c, v) # rest) = (if c = Some True then Some v else case_when rest)"

definition r_add :: "numeric \<Rightarrow> numeric \<Rightarrow> numeric" where
  "r_add a b = (case a of None \<Rightarrow> None | Some x \<Rightarrow> (case b of None \<Rightarrow> None | Some y \<Rightarrow> Some (x + y)))"

definition r_sub :: "numeric \<Rightarrow> numeric \<Rightarrow> numeric" where
  "r_sub a b = (case a of None \<Rightarrow> None | Some x \<Rightarrow> (case b of None \<Rightarrow> None | Some y \<Rightarrow> Some (x - y)))"

definition r_mul :: "numeric \<Rightarrow> numeric \<Rightarrow> numeric" where
  "r_mul a b = (case a of None \<Rightarrow> None | Some x \<Rightarrow> (case b of None \<Rightarrow> None | Some y \<Rightarrow> Some (x * y)))"

text \<open>Division: a zero divisor gives \<^verbatim>\<open>NaN\<close> or an infinity in R, here \<open>None\<close>.\<close>

definition r_div :: "numeric \<Rightarrow> numeric \<Rightarrow> numeric" where
  "r_div a b =
     (case a of None \<Rightarrow> None
      | Some x \<Rightarrow> (case b of None \<Rightarrow> None | Some y \<Rightarrow> if y = 0 then None else Some (x / y)))"

definition pmin :: "numeric \<Rightarrow> numeric \<Rightarrow> numeric" where
  "pmin a b = (case a of None \<Rightarrow> None | Some x \<Rightarrow> (case b of None \<Rightarrow> None | Some y \<Rightarrow> Some (min x y)))"

text \<open>The values of a column that are not \<^verbatim>\<open>NA\<close> (\<^verbatim>\<open>na.rm = TRUE\<close>).\<close>

fun na_rm :: "'a option list \<Rightarrow> 'a list" where
  "na_rm [] = []"
| "na_rm (None # xs) = na_rm xs"
| "na_rm (Some x # xs) = x # na_rm xs"

text \<open>\<^verbatim>\<open>max(x, na.rm = TRUE)\<close>; on no values R gives \<^verbatim>\<open>-Inf\<close>, here \<open>None\<close>.\<close>

definition max_na_rm :: "numeric list \<Rightarrow> numeric" where
  "max_na_rm xs = (case na_rm xs of [] \<Rightarrow> None | y # ys \<Rightarrow> Some (fold max ys y))"

text \<open>\<^verbatim>\<open>mean(x, na.rm = TRUE)\<close>; on no values R gives \<^verbatim>\<open>NaN\<close>.\<close>

definition mean_na_rm :: "numeric list \<Rightarrow> numeric" where
  "mean_na_rm xs = (case na_rm xs of [] \<Rightarrow> None | y # ys \<Rightarrow> Some (sum_list (y # ys) / real (length (y # ys))))"


text \<open>
  \<^verbatim>\<open>arrange(desc(key))\<close>: a stable sort by descending key with the \<^verbatim>\<open>NA\<close> keys last.
\<close>

definition arrange_desc :: "('a \<Rightarrow> numeric) \<Rightarrow> 'a list \<Rightarrow> 'a list" where
  "arrange_desc key rows =
     sort_key (\<lambda>r. - the (key r)) (filter (\<lambda>r. key r \<noteq> None) rows) @ filter (\<lambda>r. key r = None) rows"

text \<open>
  \<^verbatim>\<open>left_join(x, y, by = k)\<close>: every row of \<open>x\<close>, once with each row of \<open>y\<close> of the same
  key, or once with no partner (the columns of \<open>y\<close> are then \<^verbatim>\<open>NA\<close>).
\<close>

definition left_join :: "('a \<Rightarrow> 'k) \<Rightarrow> ('b \<Rightarrow> 'k) \<Rightarrow> 'a list \<Rightarrow> 'b list \<Rightarrow> ('a \<times> 'b option) list" where
  "left_join kx ky xs ys =
     concat (map (\<lambda>x. case filter (\<lambda>y. ky y = kx x) ys of
                         [] \<Rightarrow> [(x, None)]
                       | m # ms \<Rightarrow> map (\<lambda>y. (x, Some y)) (m # ms)) xs)"

definition file_path :: "path \<Rightarrow> string \<Rightarrow> path" where
  "file_path dir name = dir @ ''/'' @ name"

section \<open>00_market_config.R\<close>

datatype error =
    EnvRootMissingDir path
  | ConfigRootMissingDir path path
  | DataRootNotConfigured
  | RiskWeightsSum
  | InputNotFound path path
  | UpstreamNotFound string path
  | MissingColumns string "string list"
  | UnknownColumns "string list"
  | InvalidExamTrend "string list"

text \<open>
  What \<^verbatim>\<open>get_data_root\<close> reads: the environment variable (\<^verbatim>\<open>""\<close> when unset), which
  directories exist, whether \<^verbatim>\<open>scripts/config/data_paths.R\<close> exists, and the value
  \<^verbatim>\<open>DATA_ROOT\<close> is bound to once that file has been sourced (\<open>None\<close> when it is not bound).
\<close>

record host =
  SHRS_DATA_ROOT :: string
  dir_exists :: "path \<Rightarrow> bool"
  config_file_exists :: bool
  DATA_ROOT :: "path option"

definition config_file :: path where
  "config_file = ''scripts/config/data_paths.R''"

definition get_data_root :: "host \<Rightarrow> error + path" where
  "get_data_root h =
     (let env_root = SHRS_DATA_ROOT h in
      if env_root \<noteq> [] then
        (if \<not> dir_exists h env_root then Inl (EnvRootMissingDir env_root) else Inr env_root)
      else if config_file_exists h then
        (case DATA_ROOT h of
           Some d \<Rightarrow> if \<not> dir_exists h d then Inl (ConfigRootMissingDir config_file d) else Inr d
         | None \<Rightarrow> Inl DataRootNotConfigured)
      else Inl DataRootNotConfigured)"

record risk_weights =
  labor_demand :: real
  wage_level :: real
  peer_saturation :: real
  credential_pressure :: real

record market_config =
  data_root :: path
  market_data_dir :: path
  internal_data_dir :: path
  output_tables :: path
  output_figures :: path
  output_reports :: path
  cache_dir :: path
  FORCE_REBUILD :: bool
  programs :: "string list"
  risk_weights :: risk_weights

definition default_risk_weights :: risk_weights where
  "default_risk_weights =
     \<lparr>labor_demand = 0.35, wage_level = 0.25, peer_saturation = 0.20, credential_pressure = 0.20\<rparr>"

text \<open>\<^verbatim>\<open>sum(unlist(MARKET_CONFIG$risk_weights))\<close>\<close>

definition sum_weights :: "risk_weights \<Rightarrow> real" where
  "sum_weights w = sum_list [labor_demand w, wage_level w, peer_saturation w, credential_pressure w]"

text \<open>
  Sourcing the configuration script: the list is built (which calls \<^verbatim>\<open>get_data_root\<close>),
  then the weights are checked. The script writes the weights as literals; they are a
  parameter here so that the check can be stated for any weights a maintainer writes there.
\<close>

definition load_market_config :: "host \<Rightarrow> risk_weights \<Rightarrow> error + market_config" where
  "load_market_config h w =
     (case get_data_root h of
        Inl e \<Rightarrow> Inl e
      | Inr dr \<Rightarrow>
          (let cfg = \<lparr>data_root = dr,
                      market_data_dir = file_path dr ''market'',
                      internal_data_dir = file_path dr ''internal'',
                      output_tables = ''output/tables'',
                      output_figures = ''output/figures'',
                      output_reports = ''output/reports'',
                      cache_dir = ''output/.cache'',
                      FORCE_REBUILD = False,
                      programs = [''CSD_SLP'', ''CSD_AuD'', ''CSD_UG'', ''SMN_AT'', ''SMN_DN'', ''SMN_SS'', ''SMN_UG''],
                      risk_weights = w\<rparr>
           in if \<bar>sum_weights (risk_weights cfg) - 1.0\<bar> > 0.001 then Inl RiskWeightsSum else Inr cfg))"

definition MARKET_CONFIG :: "host \<Rightarrow> error + market_config" where
  "MARKET_CONFIG h = load_market_config h default_risk_weights"

subsection \<open>The refresh gate\<close>

text \<open>
  The files the scripts look at: the modification time \<^verbatim>\<open>as.character(file.info(f)$mtime)\<close>
  of every file that exists, and the record held by every cache file that exists (cache
  files are written by \<^verbatim>\<open>save_cache_metadata\<close> only).
\<close>

record cache_record =
  script_name :: string
  run_timestamp :: string
  input_files :: "path \<rightharpoonup> string"

record files =
  mtime :: "path \<rightharpoonup> string"
  cache_json :: "path \<rightharpoonup> cache_record"

definition file_exists :: "files \<Rightarrow> path \<Rightarrow> bool" where
  "file_exists fs f = (mtime fs f \<noteq> None)"

definition cache_file_of :: "market_config \<Rightarrow> string \<Rightarrow> path" where
  "cache_file_of cfg name = file_path (cache_dir cfg) (''market_'' @ name @ ''_inputs.json'')"

text \<open>The \<^verbatim>\<open>for\<close> loop of \<^verbatim>\<open>should_rebuild\<close>, which returns at the first changed input.\<close>

fun inputs_changed :: "files \<Rightarrow> cache_record \<Rightarrow> path list \<Rightarrow> bool" where
  "inputs_changed fs cache_data [] = False"
| "inputs_changed fs cache_data (f # rest) =
     (case mtime fs f of
        None \<Rightarrow> True
      | Some current_mtime \<Rightarrow>
          (case input_files cache_data f of
             None \<Rightarrow> True
           | Some cached_mtime \<Rightarrow>
               if current_mtime \<noteq> cached_mtime then True
               else inputs_changed fs cache_data rest))"

definition should_rebuild :: "market_config \<Rightarrow> files \<Rightarrow> string \<Rightarrow> path list \<Rightarrow> bool" where
  "should_rebuild cfg fs name inputs =
     (if FORCE_REBUILD cfg then True
      else case cache_json fs (cache_file_of cfg name) of
             None \<Rightarrow> True
           | Some cache_data \<Rightarrow> inputs_changed fs cache_data inputs)"

definition save_cache_metadata :: "files \<Rightarrow> string \<Rightarrow> string \<Rightarrow> path list \<Rightarrow> cache_record" where
  "save_cache_metadata fs now name inputs =
     \<lparr>script_name = name, run_timestamp = now,
      input_files = (\<lambda>f. if f \<in> set inputs then mtime fs f else None)\<rparr>"

subsection \<open>What a script leaves behind\<close>

text \<open>
  A run of a script is modelled by the files it writes, in order, and how it ends: it quits
  because its cache is valid, it stops with an error, or it runs to its last line. A table
  file carries its column names.
\<close>

datatype artifact = Csv path "string list" | Md path | Png path | Json path

datatype outcome = Skipped | Stopped error | Completed

type_synonym run = "artifact list \<times> outcome"

definition write_dual_format :: "market_config \<Rightarrow> string \<Rightarrow> string list \<Rightarrow> artifact list" where
  "write_dual_format cfg base_name names =
     [Csv (file_path (output_tables cfg) (base_name @ ''.csv'')) names,
      Md (file_path (output_tables cfg) (base_name @ ''.md''))]"

text \<open>\<^verbatim>\<open>setdiff(required_cols, names(df))\<close> must be empty.\<close>

definition validate_required_columns :: "string list \<Rightarrow> string list \<Rightarrow> string \<Rightarrow> error + unit" where
  "validate_required_columns names required_cols df_name =
     (let missing_cols = filter (\<lambda>c. c \<notin> set names) required_cols
      in if length missing_cols > 0 then Inl (MissingColumns df_name missing_cols) else Inr ())"

text \<open>\<^verbatim>\<open>select\<close> stops when a column it names is not in the table.\<close>

definition select_columns :: "string list \<Rightarrow> string list \<Rightarrow> error + unit" where
  "select_columns names cols =
     (let missing_cols = filter (\<lambda>c. c \<notin> set names) cols
      in if missing_cols \<noteq> [] then Inl (UnknownColumns missing_cols) else Inr ())"


section \<open>01_labor_market_trends.R\<close>




record labor_summary_row =
  ls_program :: string
  ls_occupation_title :: character
  ls_employment :: numeric
  ls_median_wage_annual :: numeric
  ls_wage_index :: numeric
  ls_projected_growth_pct :: numeric
  ls_growth_category :: character
  ls_projection_period :: numeric




text \<open>A column of the right-hand table of a left join: \<^verbatim>\<open>NA\<close> in a row without partner.\<close>

definition joined :: "('b \<Rightarrow> 'c option) \<Rightarrow> 'b option \<Rightarrow> 'c option" where
  "joined col partner = (case partner of None \<Rightarrow> None | Some y \<Rightarrow> col y)"



definition template_oews_names :: "string list" where
  "template_oews_names =
     [''soc_code'', ''occupation_title'', ''employment'', ''median_wage_annual'', ''data_year'']"

definition template_proj_names :: "string list" where
  "template_proj_names =
     [''soc_code'', ''occupation_title'', ''base_year_employment'', ''projected_year_employment'',
      ''change_numeric'', ''change_percent'', ''base_year'', ''projected_year'']"

definition oews_required :: "string list" where
  "oews_required = [''soc_code'', ''occupation_title'', ''employment'', ''median_wage_annual'']"

definition proj_required :: "string list" where
  "proj_required = [''soc_code'', ''occupation_title'', ''change_percent'']"

definition proj_selected :: "string list" where
  "proj_selected = [''soc_code'', ''change_percent'', ''base_year'', ''projected_year'']"

definition labor_summary_names :: "string list" where
  "labor_summary_names =
     [''program'', ''occupation_title'', ''employment'', ''median_wage_annual'', ''wage_index'',
      ''projected_growth_pct'', ''growth_category'', ''projection_period'']"

text \<open>
  The script, given the column names of the two input tables (what \<^verbatim>\<open>read_csv\<close> finds in
  them once they exist).
\<close>

definition labor_market_trends_script :: "string list \<Rightarrow> string list \<Rightarrow> files \<Rightarrow> market_config \<Rightarrow> run" where
  "labor_market_trends_script oews_names proj_names fs cfg =
     (let OEWS_FILE = file_path (market_data_dir cfg) ''bls_oews.csv'';
          PROJ_FILE = file_path (market_data_dir cfg) ''bls_projections.csv''
      in if \<not> should_rebuild cfg fs ''labor_market_trends'' [OEWS_FILE, PROJ_FILE] then ([], Skipped)
         else if \<not> file_exists fs OEWS_FILE then
           (let template_path = file_path (output_tables cfg) ''bls_oews_TEMPLATE.csv''
            in ([Csv template_path template_oews_names], Stopped (InputNotFound OEWS_FILE template_path)))
         else if \<not> file_exists fs PROJ_FILE then
           (let template_path = file_path (output_tables cfg) ''bls_projections_TEMPLATE.csv''
            in ([Csv template_path template_proj_names], Stopped (InputNotFound PROJ_FILE template_path)))
         else case validate_required_columns oews_names oews_required ''BLS OEWS data'' of
                Inl e \<Rightarrow> ([], Stopped e)
              | Inr _ \<Rightarrow>
           (case validate_required_columns proj_names proj_required ''BLS Projections data'' of
                Inl e \<Rightarrow> ([], Stopped e)
              | Inr _ \<Rightarrow>
           (case select_columns proj_names proj_selected of
                Inl e \<Rightarrow> ([], Stopped e)
              | Inr _ \<Rightarrow>
                  (write_dual_format cfg ''market_labor_summary'' labor_summary_names
                     @ [Png (file_path (output_figures cfg) ''labor_market_growth_vs_wage.png''),
                        Json (cache_file_of cfg ''labor_market_trends'')],
                   Completed))))"

section \<open>02_credential_pressure.R\<close>

record credential_row =
  cr_program :: string
  licensure_required :: character
  exam_trend :: character
  pass_rate_recent :: character
  scope_of_practice_notes :: character

record credential_summary_row =
  cs_program :: string
  cs_licensure_required :: character
  cs_exam_trend :: character
  cs_pass_rate_recent :: character
  cs_credential_risk_score :: numeric
  cs_credential_risk_category :: character
  cs_scope_of_practice_notes :: character

definition allowed_values :: "string list" where
  "allowed_values = [''Up'', ''Stable'', ''Down'', ''Unknown'']"

text \<open>\<^verbatim>\<open>x %in% table\<close> is never \<^verbatim>\<open>NA\<close>: a missing \<open>exam_trend\<close> is not among the allowed values.\<close>

definition validate_exam_trends :: "credential_row list \<Rightarrow> error + unit" where
  "validate_exam_trends df =
     (let invalid_rows = filter (\<lambda>r. exam_trend r \<notin> set (map Some allowed_values)) df
      in if length invalid_rows > 0 then Inl (InvalidExamTrend allowed_values) else Inr ())"

definition credential_risk_score :: "character \<Rightarrow> character \<Rightarrow> numeric" where
  "credential_risk_score licensure trend =
     case_when
       [(r_and (r_eq licensure (Some ''No'')) (r_eq trend (Some ''Unknown'')), 0.2),
        (r_and (r_eq licensure (Some ''Yes'')) (r_eq trend (Some ''Stable'')), 0.3),
        (r_and (r_eq licensure (Some ''Yes'')) (r_eq trend (Some ''Up'')), 0.5),
        (r_and (r_eq licensure (Some ''Yes'')) (r_eq trend (Some ''Down'')), 0.6),
        (r_eq trend (Some ''Unknown''), 0.4),
        (Some True, 0.3)]"

definition credential_risk_category :: "numeric \<Rightarrow> character" where
  "credential_risk_category score =
     case_when
       [(r_le score (Some 0.25), ''Low''),
        (r_le score (Some 0.45), ''Moderate''),
        (Some True, ''High'')]"

definition credential_summary :: "credential_row list \<Rightarrow> credential_summary_row list" where
  "credential_summary credential_df =
     arrange_desc cs_credential_risk_score
       (map (\<lambda>r. \<lparr>cs_program = cr_program r,
                   cs_licensure_required = licensure_required r,
                   cs_exam_trend = exam_trend r,
                   cs_pass_rate_recent = pass_rate_recent r,
                   cs_credential_risk_score = credential_risk_score (licensure_required r) (exam_trend r),
                   cs_credential_risk_category =
                     credential_risk_category (credential_risk_score (licensure_required r) (exam_trend r)),
                   cs_scope_of_practice_notes = scope_of_practice_notes r\<rparr>)
            credential_df)"

definition template_credential_names :: "string list" where
  "template_credential_names =
     [''program'', ''licensure_required'', ''exam_trend'', ''pass_rate_recent'', ''scope_of_practice_notes'']"

definition credential_required :: "string list" where
  "credential_required = [''program'', ''licensure_required'', ''exam_trend'', ''scope_of_practice_notes'']"

definition credential_summary_names :: "string list" where
  "credential_summary_names =
     [''program'', ''licensure_required'', ''exam_trend'', ''pass_rate_recent'', ''credential_risk_score'',
      ''credential_risk_category'', ''scope_of_practice_notes'']"

definition credential_selected :: "string list" where
  "credential_selected =
     [''program'', ''licensure_required'', ''exam_trend'', ''pass_rate_recent'', ''scope_of_practice_notes'']"

text \<open>The script, given the column names and the rows of the input table.\<close>

definition credential_pressure_script :: "string list \<Rightarrow> credential_row list \<Rightarrow> files \<Rightarrow> market_config \<Rightarrow> run" where
  "credential_pressure_script names credential_df fs cfg =
     (let CREDENTIAL_FILE = file_path (market_data_dir cfg) ''credential_pressure.csv''
      in if \<not> should_rebuild cfg fs ''credential_pressure'' [CREDENTIAL_FILE] then ([], Skipped)
         else if \<not> file_exists fs CREDENTIAL_FILE then
           (let template_path = file_path (output_tables cfg) ''credential_pressure_TEMPLATE.csv''
            in ([Csv template_path template_credential_names],
                Stopped (InputNotFound CREDENTIAL_FILE template_path)))
         else case validate_required_columns names credential_required ''Credential pressure data'' of
                Inl e \<Rightarrow> ([], Stopped e)
              | Inr _ \<Rightarrow>
           (case validate_exam_trends credential_df of
                Inl e \<Rightarrow> ([], Stopped e)
              | Inr _ \<Rightarrow>
           (case select_columns names credential_selected of
                Inl e \<Rightarrow> ([], Stopped e)
              | Inr _ \<Rightarrow>
                  (write_dual_format cfg ''credential_pressure_summary'' credential_summary_names
                     @ [Json (cache_file_of cfg ''credential_pressure'')],
                   Completed))))"

section \<open>03_peer_program_supply.R\<close>

record ipeds_row =
  region :: character
  ip_program_type :: string
  num_programs :: numeric
  total_completions :: numeric

record ipeds_crosswalk_row =
  cwp_program :: string
  cwp_program_type :: string

record peer_supply_row =
  ps_program :: string
  ps_program_type :: string
  ps_region :: character
  ps_num_programs :: numeric
  ps_total_completions :: numeric
  ps_saturation_percentile :: numeric
  ps_saturation_index :: character

definition build_shrs_ipeds_crosswalk :: "ipeds_crosswalk_row list" where
  "build_shrs_ipeds_crosswalk =
     [\<lparr>cwp_program = ''CSD_SLP'', cwp_program_type = ''Speech-Language''\<rparr>,
      \<lparr>cwp_program = ''CSD_AuD'', cwp_program_type = ''Audiology''\<rparr>,
      \<lparr>cwp_program = ''CSD_UG'', cwp_program_type = ''Speech-Language''\<rparr>,
      \<lparr>cwp_program = ''SMN_AT'', cwp_program_type = ''Athletic Training''\<rparr>,
      \<lparr>cwp_program = ''SMN_DN'', cwp_program_type = ''Dietetics''\<rparr>,
      \<lparr>cwp_program = ''SMN_SS'', cwp_program_type = ''Exercise Science''\<rparr>,
      \<lparr>cwp_program = ''SMN_UG'', cwp_program_type = ''Exercise Science''\<rparr>]"

text \<open>
  dplyr's \<^verbatim>\<open>percent_rank(x)\<close> is \<^verbatim>\<open>(min_rank(x) - 1) / (sum(!is.na(x)) - 1)\<close>, where
  \<^verbatim>\<open>min_rank\<close> gives a value one more than the number of values below it (ties share the
  smallest rank) and \<^verbatim>\<open>NA\<close> to \<^verbatim>\<open>NA\<close>. On a single value the quotient is \<^verbatim>\<open>0/0\<close>.
\<close>

definition min_rank_at :: "numeric list \<Rightarrow> real \<Rightarrow> nat" where
  "min_rank_at xs v = Suc (length (filter (\<lambda>y. y < v) (na_rm xs)))"

definition percent_rank_at :: "numeric list \<Rightarrow> numeric \<Rightarrow> numeric" where
  "percent_rank_at xs x =
     (case x of
        None \<Rightarrow> None
      | Some v \<Rightarrow> r_div (Some (real (min_rank_at xs v) - 1)) (Some (real (length (na_rm xs)) - 1)))"

definition percent_rank :: "numeric list \<Rightarrow> numeric list" where
  "percent_rank xs = map (percent_rank_at xs) xs"

definition saturation_index :: "numeric \<Rightarrow> character" where
  "saturation_index saturation_percentile =
     case_when
       [(r_le saturation_percentile (Some 0.33), ''Low''),
        (r_le saturation_percentile (Some 0.67), ''Medium''),
        (Some True, ''High'')]"

text \<open>
  \<^verbatim>\<open>group_by(region) %>% mutate(...)\<close>: the percentile of a row is taken among the rows
  of its own region. The closing \<^verbatim>\<open>arrange(program, region)\<close> only reorders the rows, by
  a collation of strings that depends on the locale; the table is kept in the order of the join.
\<close>

definition peer_supply_of :: "ipeds_crosswalk_row list \<Rightarrow> ipeds_row list \<Rightarrow> peer_supply_row list" where
  "peer_supply_of crosswalk ipeds_df =
     (let rows = filter (\<lambda>(c, i). \<not> is_na (joined region i))
                   (left_join cwp_program_type ip_program_type crosswalk ipeds_df)
      in map (\<lambda>(c, i).
                (let grp = filter (\<lambda>(c', i'). joined region i' = joined region i) rows;
                     pct = percent_rank_at (map (\<lambda>(c', i'). joined num_programs i') grp) (joined num_programs i)
                 in \<lparr>ps_program = cwp_program c,
                     ps_program_type = cwp_program_type c,
                     ps_region = joined region i,
                     ps_num_programs = joined num_programs i,
                     ps_total_completions = joined total_completions i,
                     ps_saturation_percentile = pct,
                     ps_saturation_index = saturation_index pct\<rparr>))
             rows)"

definition peer_supply :: "ipeds_row list \<Rightarrow> peer_supply_row list" where
  "peer_supply ipeds_df = peer_supply_of build_shrs_ipeds_crosswalk ipeds_df"

definition template_ipeds_names :: "string list" where
  "template_ipeds_names =
     [''region'', ''cip_code'', ''program_type'', ''num_programs'', ''total_completions'', ''data_year'']"

definition ipeds_required :: "string list" where
  "ipeds_required = [''region'', ''program_type'', ''num_programs'', ''total_completions'']"

definition peer_supply_names :: "string list" where
  "peer_supply_names =
     [''program'', ''program_type'', ''region'', ''num_programs'', ''total_completions'',
      ''saturation_percentile'', ''saturation_index'']"

definition peer_program_supply_script :: "string list \<Rightarrow> files \<Rightarrow> market_config \<Rightarrow> run" where
  "peer_program_supply_script names fs cfg =
     (let IPEDS_FILE = file_path (market_data_dir cfg) ''ipeds_program_counts.csv''
      in if \<not> should_rebuild cfg fs ''peer_program_supply'' [IPEDS_FILE] then ([], Skipped)
         else if \<not> file_exists fs IPEDS_FILE then
           (let template_path = file_path (output_tables cfg) ''ipeds_program_counts_TEMPLATE.csv''
            in ([Csv template_path template_ipeds_names], Stopped (InputNotFound IPEDS_FILE template_path)))
         else case validate_required_columns names ipeds_required ''IPEDS program counts data'' of
                Inl e \<Rightarrow> ([], Stopped e)
              | Inr _ \<Rightarrow>
                  (write_dual_format cfg ''peer_program_supply'' peer_supply_names
                     @ [Png (file_path (output_figures cfg) ''peer_program_supply_bars.png''),
                        Json (cache_file_of cfg ''peer_program_supply'')],
                   Completed))"

section \<open>04_wage_vs_cost_context.R\<close>




definition template_tuition_names :: "string list" where
  "template_tuition_names =
     [''program'', ''program_length_years'', ''annual_tuition'', ''total_program_cost'', ''academic_year'']"

definition tuition_required :: "string list" where
  "tuition_required = [''program'', ''total_program_cost'']"

definition tuition_selected :: "string list" where
  "tuition_selected = [''program'', ''total_program_cost'', ''program_length_years'', ''academic_year'']"

definition wage_cost_names :: "string list" where
  "wage_cost_names =
     [''program'', ''median_wage_annual'', ''total_program_cost'', ''program_length_years'',
      ''wage_to_cost_ratio'', ''wage_index'', ''tuition_index'', ''context_category'', ''academic_year'']"

text \<open>The script, given the column names of the labor summary and of the tuition table.\<close>

definition wage_vs_cost_context_script :: "string list \<Rightarrow> string list \<Rightarrow> files \<Rightarrow> market_config \<Rightarrow> run" where
  "wage_vs_cost_context_script labor_names tuition_names fs cfg =
     (let LABOR_SUMMARY_FILE = file_path (output_tables cfg) ''market_labor_summary.csv'';
          TUITION_FILE = file_path (internal_data_dir cfg) ''tuition_program_level.csv''
      in if \<not> should_rebuild cfg fs ''wage_vs_cost_context'' [LABOR_SUMMARY_FILE, TUITION_FILE]
         then ([], Skipped)
         else if \<not> file_exists fs LABOR_SUMMARY_FILE then
           ([], Stopped (UpstreamNotFound ''Labor market summary'' LABOR_SUMMARY_FILE))
         else if \<not> file_exists fs TUITION_FILE then
           (let template_path = file_path (output_tables cfg) ''tuition_program_level_TEMPLATE.csv''
            in ([Csv template_path template_tuition_names], Stopped (InputNotFound TUITION_FILE template_path)))
         else case validate_required_columns tuition_names tuition_required ''Tuition data'' of
                Inl e \<Rightarrow> ([], Stopped e)
              | Inr _ \<Rightarrow>
           (case select_columns labor_names [''program'', ''median_wage_annual'', ''wage_index''] of
                Inl e \<Rightarrow> ([], Stopped e)
              | Inr _ \<Rightarrow>
           (case select_columns tuition_names tuition_selected of
                Inl e \<Rightarrow> ([], Stopped e)
              | Inr _ \<Rightarrow>
                  (write_dual_format cfg ''wage_vs_cost_context'' wage_cost_names
                     @ [Png (file_path (output_figures cfg) ''wage_vs_cost_context.png''),
                        Json (cache_file_of cfg ''wage_vs_cost_context'')],
                   Completed))))"

section \<open>05_market_risk_index.R\<close>

record labor_risk_row =
  lr_program :: string
  lr_labor_demand_risk :: numeric
  lr_wage_level_risk :: numeric

record credential_risk_row =
  crr_program :: string
  crr_credential_pressure_risk :: numeric

record peer_risk_row =
  pr_program :: string
  pr_peer_saturation_risk :: numeric

record market_risk_row =
  mr_program :: string
  mr_market_risk_index :: numeric
  mr_risk_category :: character
  mr_labor_demand_risk :: numeric
  mr_wage_level_risk :: numeric
  mr_peer_saturation_risk :: numeric
  mr_credential_pressure_risk :: numeric

definition labor_demand_risk :: "numeric \<Rightarrow> numeric" where
  "labor_demand_risk projected_growth_pct =
     case_when
       [(Some (is_na projected_growth_pct), 0.5),
        (r_ge projected_growth_pct (Some 15), 0.1),
        (r_ge projected_growth_pct (Some 8), 0.3),
        (r_ge projected_growth_pct (Some 0), 0.6),
        (Some True, 0.9)]"

text \<open>\<^verbatim>\<open>1 - pmin(wage_index / max(wage_index, na.rm = TRUE), 1.0)\<close>, the maximum given.\<close>

definition wage_level_risk :: "numeric \<Rightarrow> numeric \<Rightarrow> numeric" where
  "wage_level_risk wage_index max_wage_index =
     r_sub (Some 1) (pmin (r_div wage_index max_wage_index) (Some 1.0))"

definition labor_risk :: "labor_summary_row list \<Rightarrow> labor_risk_row list" where
  "labor_risk labor_df =
     map (\<lambda>r. \<lparr>lr_program = ls_program r,
                lr_labor_demand_risk = labor_demand_risk (ls_projected_growth_pct r),
                lr_wage_level_risk =
                  wage_level_risk (ls_wage_index r) (max_na_rm (map ls_wage_index labor_df))\<rparr>)
         labor_df"

definition credential_risk :: "credential_summary_row list \<Rightarrow> credential_risk_row list" where
  "credential_risk credential_df =
     map (\<lambda>r. \<lparr>crr_program = cs_program r,
                crr_credential_pressure_risk = cs_credential_risk_score r\<rparr>)
         credential_df"

text \<open>\<^verbatim>\<open>group_by(program) %>% summarize(mean(...))\<close>: one row for each program of the table.\<close>

definition peer_risk :: "peer_supply_row list \<Rightarrow> peer_risk_row list" where
  "peer_risk peer_df =
     map (\<lambda>p. \<lparr>pr_program = p,
                pr_peer_saturation_risk =
                  mean_na_rm (map ps_saturation_percentile (filter (\<lambda>r. ps_program r = p) peer_df))\<rparr>)
         (remdups (map ps_program peer_df))"

definition market_risk_index :: "risk_weights \<Rightarrow> numeric \<Rightarrow> numeric \<Rightarrow> numeric \<Rightarrow> numeric \<Rightarrow> numeric" where
  "market_risk_index weights labor_demand_r wage_level_r peer_saturation_r credential_pressure_r =
     r_add (r_add (r_add (r_mul labor_demand_r (Some (labor_demand weights)))
                         (r_mul wage_level_r (Some (wage_level weights))))
                  (r_mul peer_saturation_r (Some (peer_saturation weights))))
           (r_mul credential_pressure_r (Some (credential_pressure weights)))"

definition risk_category :: "numeric \<Rightarrow> character" where
  "risk_category index =
     case_when
       [(r_le index (Some 0.35), ''Low Risk''),
        (r_le index (Some 0.55), ''Moderate Risk''),
        (Some True, ''High Risk'')]"

definition market_risk ::
    "risk_weights \<Rightarrow> labor_summary_row list \<Rightarrow> credential_summary_row list \<Rightarrow> peer_supply_row list
       \<Rightarrow> market_risk_row list" where
  "market_risk weights labor_df credential_df peer_df =
     arrange_desc mr_market_risk_index
       (map (\<lambda>((l, c), p).
               (let index = market_risk_index weights
                              (lr_labor_demand_risk l) (lr_wage_level_risk l)
                              (joined pr_peer_saturation_risk p)
                              (joined crr_credential_pressure_risk c)
                in \<lparr>mr_program = lr_program l,
                    mr_market_risk_index = index,
                    mr_risk_category = risk_category index,
                    mr_labor_demand_risk = lr_labor_demand_risk l,
                    mr_wage_level_risk = lr_wage_level_risk l,
                    mr_peer_saturation_risk = joined pr_peer_saturation_risk p,
                    mr_credential_pressure_risk = joined crr_credential_pressure_risk c\<rparr>))
            (left_join (\<lambda>(l, c). lr_program l) pr_program
               (left_join lr_program crr_program (labor_risk labor_df) (credential_risk credential_df))
               (peer_risk peer_df)))"

definition market_risk_names :: "string list" where
  "market_risk_names =
     [''program'', ''market_risk_index'', ''risk_category'', ''labor_demand_risk'', ''wage_level_risk'',
      ''peer_saturation_risk'', ''credential_pressure_risk'', ''index_version'', ''generated_date'']"

text \<open>The loop over \<^verbatim>\<open>required_files\<close>: the first missing one stops the script.\<close>

fun first_missing :: "files \<Rightarrow> (string \<times> path) list \<Rightarrow> error option" where
  "first_missing fs [] = None"
| "first_missing fs ((file_type, f) # rest) =
     (if \<not> file_exists fs f then Some (UpstreamNotFound file_type f) else first_missing fs rest)"

definition market_risk_index_script ::
    "string list \<Rightarrow> string list \<Rightarrow> string list \<Rightarrow> files \<Rightarrow> market_config \<Rightarrow> run" where
  "market_risk_index_script labor_names credential_names peer_names fs cfg =
     (let LABOR_SUMMARY_FILE = file_path (output_tables cfg) ''market_labor_summary.csv'';
          CREDENTIAL_FILE = file_path (output_tables cfg) ''credential_pressure_summary.csv'';
          PEER_SUPPLY_FILE = file_path (output_tables cfg) ''peer_program_supply.csv''
      in if \<not> should_rebuild cfg fs ''market_risk_index'' [LABOR_SUMMARY_FILE, CREDENTIAL_FILE, PEER_SUPPLY_FILE]
         then ([], Skipped)
         else case first_missing fs [(''labor'', LABOR_SUMMARY_FILE), (''credential'', CREDENTIAL_FILE),
                                     (''peer'', PEER_SUPPLY_FILE)] of
                Some e \<Rightarrow> ([], Stopped e)
              | None \<Rightarrow>
           (case select_columns labor_names [''program'', ''projected_growth_pct'', ''wage_index''] of
                Inl e \<Rightarrow> ([], Stopped e)
              | Inr _ \<Rightarrow>
           (case select_columns credential_names [''program'', ''credential_risk_score''] of
                Inl e \<Rightarrow> ([], Stopped e)
              | Inr _ \<Rightarrow>
           (case select_columns peer_names [''program'', ''saturation_percentile''] of
                Inl e \<Rightarrow> ([], Stopped e)
              | Inr _ \<Rightarrow>
                  (write_dual_format cfg ''market_risk_index'' market_risk_names
                     @ [Csv (file_path (output_tables cfg) ''market_risk_index_weights.csv'')
                          [''component'', ''weight'', ''description''],
                        Json (cache_file_of cfg ''market_risk_index'')],
                   Completed)))))"

section \<open>The example rows of the templates\<close>



definition template_credential :: "credential_row list" where
  "template_credential =
     [\<lparr>cr_program = ''CSD_SLP'', licensure_required = Some ''Yes'', exam_trend = Some ''Stable'',
       pass_rate_recent = Some ''95%'',
       scope_of_practice_notes = Some ''ASHA certification required; no recent scope changes''\<rparr>,
      \<lparr>cr_program = ''CSD_AuD'', licensure_required = Some ''Yes'', exam_trend = Some ''Stable'',
       pass_rate_recent = Some ''92%'',
       scope_of_practice_notes = Some ''State licensure required; telehealth expansion''\<rparr>,
      \<lparr>cr_program = ''CSD_UG'', licensure_required = Some ''No'', exam_trend = Some ''Unknown'',
       pass_rate_recent = Some ''N/A'', scope_of_practice_notes = Some ''Pipeline program''\<rparr>,
      \<lparr>cr_program = ''SMN_AT'', licensure_required = Some ''Yes'', exam_trend = Some ''Down'',
       pass_rate_recent = Some ''78%'', scope_of_practice_notes = Some ''BOC exam pass rates declining''\<rparr>,
      \<lparr>cr_program = ''SMN_DN'', licensure_required = Some ''Yes'', exam_trend = Some ''Stable'',
       pass_rate_recent = Some ''88%'', scope_of_practice_notes = Some ''RDN credential required''\<rparr>,
      \<lparr>cr_program = ''SMN_SS'', licensure_required = Some ''No'', exam_trend = Some ''Unknown'',
       pass_rate_recent = Some ''N/A'', scope_of_practice_notes = Some ''Varied career paths''\<rparr>,
      \<lparr>cr_program = ''SMN_UG'', licensure_required = Some ''No'', exam_trend = Some ''Unknown'',
       pass_rate_recent = Some ''N/A'', scope_of_practice_notes = Some ''Pipeline program''\<rparr>]"

text \<open>The five rows of the IPEDS template for the region Mid-Atlantic.\<close>

definition template_ipeds_mid_atlantic :: "ipeds_row list" where
  "template_ipeds_mid_atlantic =
     [\<lparr>region = Some ''Mid-Atlantic'', ip_program_type = ''Speech-Language'',
       num_programs = Some 45, total_completions = Some 1820\<rparr>,
      \<lparr>region = Some ''Mid-Atlantic'', ip_program_type = ''Audiology'',
       num_programs = Some 12, total_completions = Some 380\<rparr>,
      \<lparr>region = Some ''Mid-Atlantic'', ip_program_type = ''Athletic Training'',
       num_programs = Some 38, total_completions = Some 980\<rparr>,
      \<lparr>region = Some ''Mid-Atlantic'', ip_program_type = ''Dietetics'',
       num_programs = Some 52, total_completions = Some 1450\<rparr>,
      \<lparr>region = Some ''Mid-Atlantic'', ip_program_type = ''Exercise Science'',
       num_programs = Some 78, total_completions = Some 2340\<rparr>]"


text \<open>
  Two machines: one where nothing is configured, one where the environment variable names
  an existing directory; the configuration loaded on the second; and a file system that
  holds no file at all.
\<close>

definition nowhere :: "path \<Rightarrow> bool" where
  "nowhere p = False"

definition only_data :: "path \<Rightarrow> bool" where
  "only_data p = (p = ''/data'')"

definition bare_host :: host where
  "bare_host = \<lparr>SHRS_DATA_ROOT = [], dir_exists = nowhere, config_file_exists = False, DATA_ROOT = None\<rparr>"

definition env_host :: host where
  "env_host = \<lparr>SHRS_DATA_ROOT = ''/data'', dir_exists = only_data, config_file_exists = False, DATA_ROOT = None\<rparr>"

definition env_config :: market_config where
  "env_config =
     \<lparr>data_root = ''/data'',
      market_data_dir = ''/data/market'',
      internal_data_dir = ''/data/internal'',
      output_tables = ''output/tables'',
      output_figures = ''output/figures'',
      output_reports = ''output/reports'',
      cache_dir = ''output/.cache'',
      FORCE_REBUILD = False,
      programs = [''CSD_SLP'', ''CSD_AuD'', ''CSD_UG'', ''SMN_AT'', ''SMN_DN'', ''SMN_SS'', ''SMN_UG''],
      risk_weights = default_risk_weights\<rparr>"

definition no_files :: files where
  "no_files = \<lparr>mtime = Map.empty, cache_json = Map.empty\<rparr>"





text \<open>
  A file system where the credential table exists and the cache file of the credential
  script records its present modification time.
\<close>

definition credential_cache :: cache_record where
  "credential_cache =
     \<lparr>script_name = ''credential_pressure'', run_timestamp = ''2025-01-02 09:00:00'',
      input_files = [''/data/market/credential_pressure.csv'' \<mapsto> ''2025-01-01 08:00:00'']\<rparr>"

definition cached_files :: files where
  "cached_files =
     \<lparr>mtime = [''/data/market/credential_pressure.csv'' \<mapsto> ''2025-01-01 08:00:00''],
      cache_json = [''output/.cache/market_credential_pressure_inputs.json'' \<mapsto> credential_cache]\<rparr>"

section \<open>The words of the specification\<close>

text \<open>
  A source of the data root resolves when it names a directory that exists: the environment
  variable when it is set, the override file when it exists and binds \<^verbatim>\<open>DATA_ROOT\<close>.
\<close>

definition env_resolves :: "host \<Rightarrow> bool" where
  "env_resolves h = (SHRS_DATA_ROOT h \<noteq> [] \<and> dir_exists h (SHRS_DATA_ROOT h))"

definition config_resolves :: "host \<Rightarrow> bool" where
  "config_resolves h =
     (config_file_exists h \<and> (case DATA_ROOT h of None \<Rightarrow> False | Some d \<Rightarrow> dir_exists h d))"

text \<open>The \<open>num_programs\<close> column of the rows of one region of a peer supply table.\<close>

definition region_values :: "peer_supply_row list \<Rightarrow> character \<Rightarrow> numeric list" where
  "region_values rows reg = map ps_num_programs (filter (\<lambda>r. ps_region r = reg) rows)"

text \<open>The paths of the tables among the files a script has written.\<close>

fun table_paths :: "artifact list \<Rightarrow> path list" where
  "table_paths [] = []"
| "table_paths (Csv p names # rest) = p # table_paths rest"
| "table_paths (Md p # rest) = table_paths rest"
| "table_paths (Png p # rest) = table_paths rest"
| "table_paths (Json p # rest) = table_paths rest"






section \<open>Properties\<close>

subsection \<open>Growth categories\<close>


subsection \<open>Credential risk\<close>

lemma set_arrange_desc: "set (arrange_desc key rows) = set rows"
  by (auto simp: arrange_desc_def)

lemma credential_risk_score_lookup:
  "credential_risk_score l e =
     Some (if l = Some ''No'' \<and> e = Some ''Unknown'' then 0.2
           else if l = Some ''Yes'' \<and> e = Some ''Stable'' then 0.3
           else if l = Some ''Yes'' \<and> e = Some ''Up'' then 0.5
           else if l = Some ''Yes'' \<and> e = Some ''Down'' then 0.6
           else if e = Some ''Unknown'' then 0.4
           else 0.3)"
  by (cases l; cases e) (auto simp: credential_risk_score_def r_and_def r_eq_def)

lemma credential_risk_category_buckets:
  "credential_risk_category (Some s) =
     Some (if s \<le> 0.25 then ''Low'' else if s \<le> 0.45 then ''Moderate'' else ''High'')"
  by (simp add: credential_risk_category_def r_le_def)


lemma credential_summary_row:
  assumes "s \<in> set (credential_summary df)"
  shows "\<exists>r \<in> set df. cs_licensure_required s = licensure_required r \<and> cs_exam_trend s = exam_trend r
           \<and> cs_credential_risk_score s = credential_risk_score (licensure_required r) (exam_trend r)
           \<and> cs_credential_risk_category s =
               credential_risk_category (credential_risk_score (licensure_required r) (exam_trend r))"
  using assms by (auto simp: credential_summary_def set_arrange_desc)



text \<open>
  C10. For an \<open>exam_trend\<close> among \<open>Up\<close>, \<open>Stable\<close>, \<open>Down\<close> and \<open>Unknown\<close> and any
  \<open>licensure_required\<close>, missing ones included, the score and the category are never
  \<^verbatim>\<open>NA\<close>; a pair that none of the five conditions of the lookup matches gets the score 0.3
  of the last branch. So (\<open>No\<close>, \<open>Down\<close>) gets 0.3, and the category \<open>Moderate\<close>.
\<close>

theorem credential_score_total:
  assumes "e \<in> set (map Some allowed_values)"
  shows "credential_risk_score l e \<noteq> None
         \<and> credential_risk_category (credential_risk_score l e) \<noteq> None
         \<and> (\<not> (l = Some ''No'' \<and> e = Some ''Unknown'')
              \<and> \<not> (l = Some ''Yes'' \<and> e = Some ''Stable'')
              \<and> \<not> (l = Some ''Yes'' \<and> e = Some ''Up'')
              \<and> \<not> (l = Some ''Yes'' \<and> e = Some ''Down'')
              \<and> e \<noteq> Some ''Unknown''
              \<longrightarrow> credential_risk_score l e = Some 0.3)
         \<and> credential_risk_score (Some ''No'') (Some ''Down'') = Some 0.3
         \<and> credential_risk_category (credential_risk_score (Some ''No'') (Some ''Down'')) = Some ''Moderate''"
  unfolding credential_risk_score_lookup credential_risk_category_buckets by simp

theorem credential_score_total_witness:
  "Some ''Up'' \<in> set (map Some allowed_values)
   \<and> credential_risk_score (Some ''No'') (Some ''Up'') = Some 0.3
   \<and> credential_risk_category (credential_risk_score (Some ''No'') (Some ''Up'')) \<noteq> None"
proof -
  have h: "Some ''Up'' \<in> set (map Some allowed_values)"
    by (simp add: allowed_values_def)
  from credential_score_total[OF h, of "Some ''No''"] show ?thesis
    using h by auto
qed

subsection \<open>The refresh gate\<close>

lemma inputs_changed_iff:
  "inputs_changed fs c inputs =
     (\<exists>f \<in> set inputs. \<not> file_exists fs f \<or> input_files c f = None \<or> input_files c f \<noteq> mtime fs f)"
  by (induction inputs) (auto simp: file_exists_def split: option.splits)

text \<open>
  C3. For every stage name and list of inputs, \<open>should_rebuild\<close> is true when the
  force-rebuild flag is set; otherwise true when the stage has no cache file; otherwise true
  exactly when some input is missing, has no recorded time, or has a recorded time other than
  its present one, and false in all other cases.
\<close>

theorem should_rebuild_cases:
  "(FORCE_REBUILD cfg \<longrightarrow> should_rebuild cfg fs name inputs)
   \<and> (\<not> FORCE_REBUILD cfg \<and> cache_json fs (cache_file_of cfg name) = None
        \<longrightarrow> should_rebuild cfg fs name inputs)
   \<and> (\<not> FORCE_REBUILD cfg \<and> cache_json fs (cache_file_of cfg name) = Some c
        \<longrightarrow> should_rebuild cfg fs name inputs =
             (\<exists>f \<in> set inputs. \<not> file_exists fs f \<or> input_files c f = None
                                 \<or> input_files c f \<noteq> mtime fs f))"
  by (simp add: should_rebuild_def inputs_changed_iff)

theorem should_rebuild_cases_witness:
  "\<not> FORCE_REBUILD env_config
   \<and> cache_json cached_files (cache_file_of env_config ''credential_pressure'') = Some credential_cache
   \<and> \<not> should_rebuild env_config cached_files ''credential_pressure'' [''/data/market/credential_pressure.csv'']
   \<and> should_rebuild env_config cached_files ''credential_pressure''
        [''/data/market/credential_pressure.csv'', ''/data/market/other.csv'']
   \<and> should_rebuild env_config no_files ''credential_pressure'' [''/data/market/credential_pressure.csv'']
   \<and> should_rebuild (env_config\<lparr>FORCE_REBUILD := True\<rparr>) cached_files ''credential_pressure''
        [''/data/market/credential_pressure.csv'']"
proof -
  have f: "\<not> FORCE_REBUILD env_config"
    by (simp add: env_config_def)
  have c: "cache_json cached_files (cache_file_of env_config ''credential_pressure'') = Some credential_cache"
    by (simp add: cached_files_def cache_file_of_def env_config_def file_path_def)
  have n: "cache_json no_files (cache_file_of env_config ''credential_pressure'') = None"
    by (simp add: no_files_def)
  have t: "FORCE_REBUILD (env_config\<lparr>FORCE_REBUILD := True\<rparr>)"
    by simp
  have a: "\<not> should_rebuild env_config cached_files ''credential_pressure'' [''/data/market/credential_pressure.csv'']"
    using should_rebuild_cases[where cfg = env_config and fs = cached_files
        and name = "''credential_pressure''" and c = credential_cache
        and inputs = "[''/data/market/credential_pressure.csv'']"] f c
    by (simp add: file_exists_def cached_files_def credential_cache_def)
  have b: "should_rebuild env_config cached_files ''credential_pressure''
        [''/data/market/credential_pressure.csv'', ''/data/market/other.csv'']"
    using should_rebuild_cases[where cfg = env_config and fs = cached_files
        and name = "''credential_pressure''" and c = credential_cache
        and inputs = "[''/data/market/credential_pressure.csv'', ''/data/market/other.csv'']"] f c
    by (simp add: file_exists_def cached_files_def credential_cache_def)
  have d: "should_rebuild env_config no_files ''credential_pressure'' [''/data/market/credential_pressure.csv'']"
    using should_rebuild_cases[where cfg = env_config and fs = no_files
        and name = "''credential_pressure''"] f n by blast
  have e: "should_rebuild (env_config\<lparr>FORCE_REBUILD := True\<rparr>) cached_files ''credential_pressure''
        [''/data/market/credential_pressure.csv'']"
    using should_rebuild_cases[where cfg = "env_config\<lparr>FORCE_REBUILD := True\<rparr>"] t by blast
  show ?thesis using f c a b d e by blast
qed

subsection \<open>Loading the configuration\<close>

text \<open>
  C9. The data root is taken from the environment variable when it is set, and from the
  override file only when it is not; whenever neither source resolves to an existing
  directory \<open>get_data_root\<close> stops with an error, and a path it returns is an existing
  directory.
\<close>

theorem get_data_root_resolution:
  "(SHRS_DATA_ROOT h \<noteq> [] \<longrightarrow>
      get_data_root h = (if dir_exists h (SHRS_DATA_ROOT h) then Inr (SHRS_DATA_ROOT h)
                         else Inl (EnvRootMissingDir (SHRS_DATA_ROOT h))))
   \<and> (SHRS_DATA_ROOT h = [] \<and> config_file_exists h \<and> DATA_ROOT h = Some d \<longrightarrow>
      get_data_root h = (if dir_exists h d then Inr d else Inl (ConfigRootMissingDir config_file d)))
   \<and> (\<not> env_resolves h \<and> \<not> config_resolves h \<longrightarrow> (\<exists>e. get_data_root h = Inl e))
   \<and> (get_data_root h = Inr p \<longrightarrow> dir_exists h p)"
  by (auto simp: get_data_root_def env_resolves_def config_resolves_def Let_def split: option.splits)

theorem get_data_root_resolution_witness:
  "\<not> env_resolves bare_host \<and> \<not> config_resolves bare_host
   \<and> (\<exists>e. get_data_root bare_host = Inl e)
   \<and> SHRS_DATA_ROOT env_host \<noteq> []
   \<and> get_data_root env_host = Inr ''/data''"
proof -
  have a: "\<not> env_resolves bare_host" "\<not> config_resolves bare_host"
    by (simp_all add: env_resolves_def config_resolves_def bare_host_def)
  have b: "SHRS_DATA_ROOT env_host \<noteq> []"
    by (simp add: env_host_def)
  have c: "\<exists>e. get_data_root bare_host = Inl e"
    using get_data_root_resolution[of bare_host] a by blast
  have d: "get_data_root env_host = Inr ''/data''"
    using get_data_root_resolution[of env_host] b by (simp add: env_host_def only_data_def)
  show ?thesis using a b c d by blast
qed




subsection \<open>The composite index\<close>

lemma market_risk_row:
  assumes "r \<in> set (market_risk w labor_df credential_df peer_df)"
  shows "mr_market_risk_index r =
           market_risk_index w (mr_labor_demand_risk r) (mr_wage_level_risk r)
             (mr_peer_saturation_risk r) (mr_credential_pressure_risk r)
         \<and> mr_risk_category r = risk_category (mr_market_risk_index r)"
  using assms by (auto simp: market_risk_def set_arrange_desc Let_def)





subsection \<open>Saturation percentiles\<close>

lemma peer_supply_percentile:
  assumes "r \<in> set (peer_supply_of cw ipeds_df)"
  shows "ps_saturation_percentile r =
           percent_rank_at (region_values (peer_supply_of cw ipeds_df) (ps_region r)) (ps_num_programs r)"
  using assms
  by (auto simp: peer_supply_of_def region_values_def Let_def filter_map comp_def case_prod_unfold)

lemma in_na_rm: "x \<in> set (na_rm xs) \<longleftrightarrow> Some x \<in> set xs"
  by (induction xs rule: na_rm.induct) auto

lemma filter_length_le:
  "(\<forall>x \<in> set xs. P x \<longrightarrow> Q x) \<Longrightarrow> length (filter P xs) \<le> length (filter Q xs)"
  by (induction xs) auto

lemma filter_length_less:
  "(\<forall>x \<in> set xs. P x \<longrightarrow> Q x) \<Longrightarrow> \<exists>x \<in> set xs. Q x \<and> \<not> P x
     \<Longrightarrow> length (filter P xs) < length (filter Q xs)"
proof (induction xs)
  case Nil
  then show ?case by simp
next
  case (Cons x xs)
  show ?case
  proof (cases "Q x \<and> \<not> P x")
    case True
    have "length (filter P xs) \<le> length (filter Q xs)"
      using Cons.prems(1) by (intro filter_length_le) simp
    with True show ?thesis by simp
  next
    case False
    with Cons.prems have "\<exists>x \<in> set xs. Q x \<and> \<not> P x" by auto
    with Cons.IH Cons.prems(1) have "length (filter P xs) < length (filter Q xs)" by simp
    with False Cons.prems(1) show ?thesis by auto
  qed
qed

lemma percent_rank_at_Some:
  "percent_rank_at xs (Some v) =
     (if length (na_rm xs) = 1 then None
      else Some (real (length (filter (\<lambda>y. y < v) (na_rm xs))) / (real (length (na_rm xs)) - 1)))"
  by (auto simp: percent_rank_at_def min_rank_at_def r_div_def)

lemma percent_rank_at_mono:
  assumes "Some a \<in> set xs" and "a < b"
    and "percent_rank_at xs (Some a) = Some p" and "percent_rank_at xs (Some b) = Some q"
  shows "p < q"
proof -
  let ?vs = "na_rm xs"
  have a: "a \<in> set ?vs" using assms(1) by (simp add: in_na_rm)
  then have n1: "length ?vs \<ge> 1" by (cases ?vs) auto
  have n: "length ?vs \<noteq> 1" using assms(3) by (auto simp: percent_rank_at_Some split: if_splits)
  with n1 have pos: "real (length ?vs) - 1 > 0" by simp
  have "length (filter (\<lambda>y. y < a) ?vs) < length (filter (\<lambda>y. y < b) ?vs)"
    using a assms(2) by (intro filter_length_less) auto
  then have "real (length (filter (\<lambda>y. y < a) ?vs)) < real (length (filter (\<lambda>y. y < b) ?vs))"
    by simp
  with pos have "real (length (filter (\<lambda>y. y < a) ?vs)) / (real (length ?vs) - 1)
      < real (length (filter (\<lambda>y. y < b) ?vs)) / (real (length ?vs) - 1)"
    by (simp add: divide_strict_right_mono)
  with assms(3,4) n show ?thesis by (simp add: percent_rank_at_Some)
qed

lemma count_less_bound:
  assumes "v \<in> set vs"
  shows "length (filter (\<lambda>y. y < (v::real)) vs) < length vs"
proof -
  have "length (filter (\<lambda>y. y < v) vs) < length (filter (\<lambda>y. True) vs)"
    using assms by (intro filter_length_less) auto
  then show ?thesis by simp
qed

lemma percent_rank_at_range:
  assumes "Some v \<in> set xs" and "percent_rank_at xs (Some v) = Some p"
  shows "0 \<le> p \<and> p \<le> 1"
proof -
  let ?vs = "na_rm xs"
  have v: "v \<in> set ?vs" using assms(1) by (simp add: in_na_rm)
  have n: "length ?vs \<noteq> 1" using assms(2) by (auto simp: percent_rank_at_Some split: if_splits)
  have c: "length (filter (\<lambda>y. y < v) ?vs) < length ?vs" using v by (rule count_less_bound)
  then have pos: "real (length ?vs) - 1 > 0" using n by simp
  have le: "real (length (filter (\<lambda>y. y < v) ?vs)) \<le> real (length ?vs) - 1" using c by simp
  have p: "p = real (length (filter (\<lambda>y. y < v) ?vs)) / (real (length ?vs) - 1)"
    using assms(2) n by (simp add: percent_rank_at_Some)
  show ?thesis unfolding p using pos le by simp
qed

lemma percent_rank_at_min:
  assumes "2 \<le> length (na_rm xs)"
  shows "\<exists>v. Some v \<in> set xs \<and> percent_rank_at xs (Some v) = Some 0"
proof -
  let ?vs = "na_rm xs"
  have ne: "set ?vs \<noteq> {}" using assms by (cases ?vs) auto
  define m where "m = Min (set ?vs)"
  have m: "m \<in> set ?vs" unfolding m_def using ne by (intro Min_in) auto
  have "\<forall>y \<in> set ?vs. \<not> y < m" unfolding m_def by (auto simp: not_less)
  then have "filter (\<lambda>y. y < m) ?vs = []" by (simp add: filter_empty_conv)
  then have "percent_rank_at xs (Some m) = Some 0"
    using assms by (simp add: percent_rank_at_Some)
  with m show ?thesis by (auto simp: in_na_rm)
qed

lemma percent_rank_at_one:
  assumes "Some v \<in> set xs" and "2 \<le> length (na_rm xs)"
  shows "percent_rank_at xs (Some v) = Some 1 \<longleftrightarrow> length (filter (\<lambda>y. v \<le> y) (na_rm xs)) = 1"
proof -
  let ?vs = "na_rm xs"
  have pos: "real (length ?vs) - 1 > 0" using assms(2) by simp
  have split: "length (filter (\<lambda>y. y < v) ?vs) + length (filter (\<lambda>y. v \<le> y) ?vs) = length ?vs"
    using sum_length_filter_compl[of "\<lambda>y. y < v" ?vs] by (simp add: not_less)
  have "percent_rank_at xs (Some v) = Some 1
          \<longleftrightarrow> real (length (filter (\<lambda>y. y < v) ?vs)) = real (length ?vs) - 1"
    using assms(2) pos by (auto simp: percent_rank_at_Some)
  also have "\<dots> \<longleftrightarrow> length (filter (\<lambda>y. v \<le> y) ?vs) = 1"
    using split assms(2) by linarith
  finally show ?thesis .
qed

lemma peer_supply_value_in_region:
  assumes "r \<in> set rows"
  shows "ps_num_programs r \<in> set (region_values rows (ps_region r))"
  using assms by (auto simp: region_values_def)

text \<open>
  C8, as the scripts have it. Among the rows of one region of the peer supply table, a row
  with strictly more programs has a strictly greater percentile, and every percentile lies
  between 0 and 1. In a region where more than one row has a number of programs, some row has
  the percentile 0, and a row has the percentile 1 exactly when no other row of the region has
  as many programs as it has: ties share the smallest rank, so a tied largest count stays below 1.
\<close>

theorem saturation_percentile_monotone:
  assumes "r1 \<in> set (peer_supply ipeds_df)" and "r2 \<in> set (peer_supply ipeds_df)"
    and "ps_region r1 = ps_region r2"
  shows "(\<forall>a b p q. ps_num_programs r1 = Some a \<and> ps_num_programs r2 = Some b \<and> a < b
              \<and> ps_saturation_percentile r1 = Some p \<and> ps_saturation_percentile r2 = Some q
            \<longrightarrow> p < q)
         \<and> (\<forall>p. ps_saturation_percentile r1 = Some p \<longrightarrow> 0 \<le> p \<and> p \<le> 1)
         \<and> (2 \<le> length (na_rm (region_values (peer_supply ipeds_df) (ps_region r1)))
              \<longrightarrow> (\<exists>r \<in> set (peer_supply ipeds_df).
                     ps_region r = ps_region r1 \<and> ps_saturation_percentile r = Some 0)
                \<and> (\<forall>v. ps_num_programs r1 = Some v \<longrightarrow>
                      (ps_saturation_percentile r1 = Some 1
                        \<longleftrightarrow> length (filter (\<lambda>y. v \<le> y)
                              (na_rm (region_values (peer_supply ipeds_df) (ps_region r1)))) = 1)))"
proof -
  let ?T = "peer_supply ipeds_df"
  let ?xs = "region_values ?T (ps_region r1)"
  have p1: "ps_saturation_percentile r1 = percent_rank_at ?xs (ps_num_programs r1)"
    using assms(1) unfolding peer_supply_def by (rule peer_supply_percentile)
  have p2: "ps_saturation_percentile r2 = percent_rank_at ?xs (ps_num_programs r2)"
    using assms(2) unfolding peer_supply_def assms(3) by (rule peer_supply_percentile)
  have m1: "ps_num_programs r1 \<in> set ?xs"
    using assms(1) by (rule peer_supply_value_in_region)
  have mono: "\<forall>a b p q. ps_num_programs r1 = Some a \<and> ps_num_programs r2 = Some b \<and> a < b
              \<and> ps_saturation_percentile r1 = Some p \<and> ps_saturation_percentile r2 = Some q
            \<longrightarrow> p < q"
    using percent_rank_at_mono[of _ ?xs] m1 p1 p2 by auto
  have range: "\<forall>p. ps_saturation_percentile r1 = Some p \<longrightarrow> 0 \<le> p \<and> p \<le> 1"
  proof (intro allI impI)
    fix p assume p: "ps_saturation_percentile r1 = Some p"
    then obtain v where v: "ps_num_programs r1 = Some v"
      using p1 by (cases "ps_num_programs r1") (auto simp: percent_rank_at_def)
    show "0 \<le> p \<and> p \<le> 1"
      using percent_rank_at_range[of v ?xs p] m1 p1 p v by simp
  qed
  have span: "(\<exists>r \<in> set ?T. ps_region r = ps_region r1 \<and> ps_saturation_percentile r = Some 0)
                \<and> (\<forall>v. ps_num_programs r1 = Some v \<longrightarrow>
                      (ps_saturation_percentile r1 = Some 1
                        \<longleftrightarrow> length (filter (\<lambda>y. v \<le> y) (na_rm ?xs)) = 1))"
    if n: "2 \<le> length (na_rm ?xs)"
  proof
    from percent_rank_at_min[OF n] obtain v where v: "Some v \<in> set ?xs"
      "percent_rank_at ?xs (Some v) = Some 0" by blast
    from v(1) obtain r where r: "r \<in> set ?T" "ps_region r = ps_region r1" "ps_num_programs r = Some v"
      by (auto simp: region_values_def)
    have "ps_saturation_percentile r = percent_rank_at ?xs (ps_num_programs r)"
      using r(1) unfolding peer_supply_def r(2)[symmetric] by (rule peer_supply_percentile)
    with v(2) r show "\<exists>r \<in> set ?T. ps_region r = ps_region r1 \<and> ps_saturation_percentile r = Some 0"
      by auto
    show "\<forall>v. ps_num_programs r1 = Some v \<longrightarrow>
            (ps_saturation_percentile r1 = Some 1
               \<longleftrightarrow> length (filter (\<lambda>y. v \<le> y) (na_rm ?xs)) = 1)"
      using percent_rank_at_one[OF _ n] m1 p1 by auto
  qed
  show ?thesis using mono range span by blast
qed

theorem saturation_percentile_monotone_witness:
  "peer_supply template_ipeds_mid_atlantic ! 1 \<in> set (peer_supply template_ipeds_mid_atlantic)
   \<and> peer_supply template_ipeds_mid_atlantic ! 4 \<in> set (peer_supply template_ipeds_mid_atlantic)
   \<and> ps_region (peer_supply template_ipeds_mid_atlantic ! 1)
       = ps_region (peer_supply template_ipeds_mid_atlantic ! 4)
   \<and> ps_num_programs (peer_supply template_ipeds_mid_atlantic ! 1) = Some 12
   \<and> ps_num_programs (peer_supply template_ipeds_mid_atlantic ! 4) = Some 52
   \<and> ps_saturation_percentile (peer_supply template_ipeds_mid_atlantic ! 1) = Some 0
   \<and> ps_saturation_percentile (peer_supply template_ipeds_mid_atlantic ! 4) = Some (2 / 3)
   \<and> 2 \<le> length (na_rm (region_values (peer_supply template_ipeds_mid_atlantic)
                 (ps_region (peer_supply template_ipeds_mid_atlantic ! 1))))
   \<and> ps_saturation_percentile (peer_supply template_ipeds_mid_atlantic ! 1) \<noteq> Some 1"
proof -
  have m1: "peer_supply template_ipeds_mid_atlantic ! 1 \<in> set (peer_supply template_ipeds_mid_atlantic)"
    by code_simp
  have m2: "peer_supply template_ipeds_mid_atlantic ! 4 \<in> set (peer_supply template_ipeds_mid_atlantic)"
    by code_simp
  have reg: "ps_region (peer_supply template_ipeds_mid_atlantic ! 1)
               = ps_region (peer_supply template_ipeds_mid_atlantic ! 4)"
    by code_simp
  have vals: "ps_num_programs (peer_supply template_ipeds_mid_atlantic ! 1) = Some 12"
    "ps_num_programs (peer_supply template_ipeds_mid_atlantic ! 4) = Some 52"
    "ps_saturation_percentile (peer_supply template_ipeds_mid_atlantic ! 1) = Some 0"
    "ps_saturation_percentile (peer_supply template_ipeds_mid_atlantic ! 4) = Some (2 / 3)"
    by code_simp+
  have n: "2 \<le> length (na_rm (region_values (peer_supply template_ipeds_mid_atlantic)
                 (ps_region (peer_supply template_ipeds_mid_atlantic ! 1))))"
    by code_simp
  from saturation_percentile_monotone[OF m1 m2 reg] show ?thesis
    using m1 m2 reg vals n by simp
qed

text \<open>
  C8, as stated, fails on the Mid-Atlantic rows of the script's own template: the crosswalk
  maps two programs to the program type with the most programs, so the largest count, 78, is
  tied, and the seven rows of the region reach 5/6 at most.
\<close>

theorem saturation_percentile_tied_top:
  "map ps_region (peer_supply template_ipeds_mid_atlantic) = replicate 7 (Some ''Mid-Atlantic'')
   \<and> map ps_num_programs (peer_supply template_ipeds_mid_atlantic)
       = [Some 45, Some 12, Some 45, Some 38, Some 52, Some 78, Some 78]
   \<and> map ps_saturation_percentile (peer_supply template_ipeds_mid_atlantic)
       = [Some (1/3), Some 0, Some (1/3), Some (1/6), Some (2/3), Some (5/6), Some (5/6)]
   \<and> Some 1 \<notin> set (map ps_saturation_percentile (peer_supply template_ipeds_mid_atlantic))"
  by code_simp

subsection \<open>Missing inputs\<close>

lemma missing_input_rebuilds:
  "\<not> file_exists fs f \<Longrightarrow> f \<in> set inputs \<Longrightarrow> should_rebuild cfg fs name inputs"
  by (auto simp: should_rebuild_def inputs_changed_iff split: option.splits)

lemma labor_oews_missing:
  assumes "\<not> file_exists fs (file_path (market_data_dir cfg) ''bls_oews.csv'')"
  shows "labor_market_trends_script oews_names proj_names fs cfg =
           ([Csv (file_path (output_tables cfg) ''bls_oews_TEMPLATE.csv'') template_oews_names],
            Stopped (InputNotFound (file_path (market_data_dir cfg) ''bls_oews.csv'')
                       (file_path (output_tables cfg) ''bls_oews_TEMPLATE.csv'')))"
  using assms missing_input_rebuilds[OF assms, of _ cfg "''labor_market_trends''"]
  by (simp add: labor_market_trends_script_def Let_def)

lemma labor_proj_missing:
  assumes "file_exists fs (file_path (market_data_dir cfg) ''bls_oews.csv'')"
    and "\<not> file_exists fs (file_path (market_data_dir cfg) ''bls_projections.csv'')"
  shows "labor_market_trends_script oews_names proj_names fs cfg =
           ([Csv (file_path (output_tables cfg) ''bls_projections_TEMPLATE.csv'') template_proj_names],
            Stopped (InputNotFound (file_path (market_data_dir cfg) ''bls_projections.csv'')
                       (file_path (output_tables cfg) ''bls_projections_TEMPLATE.csv'')))"
  using assms missing_input_rebuilds[OF assms(2), of _ cfg "''labor_market_trends''"]
  by (simp add: labor_market_trends_script_def Let_def)

lemma credential_missing:
  assumes "\<not> file_exists fs (file_path (market_data_dir cfg) ''credential_pressure.csv'')"
  shows "credential_pressure_script names credential_df fs cfg =
           ([Csv (file_path (output_tables cfg) ''credential_pressure_TEMPLATE.csv'') template_credential_names],
            Stopped (InputNotFound (file_path (market_data_dir cfg) ''credential_pressure.csv'')
                       (file_path (output_tables cfg) ''credential_pressure_TEMPLATE.csv'')))"
  using assms missing_input_rebuilds[OF assms, of _ cfg "''credential_pressure''"]
  by (simp add: credential_pressure_script_def Let_def)

lemma ipeds_missing:
  assumes "\<not> file_exists fs (file_path (market_data_dir cfg) ''ipeds_program_counts.csv'')"
  shows "peer_program_supply_script names fs cfg =
           ([Csv (file_path (output_tables cfg) ''ipeds_program_counts_TEMPLATE.csv'') template_ipeds_names],
            Stopped (InputNotFound (file_path (market_data_dir cfg) ''ipeds_program_counts.csv'')
                       (file_path (output_tables cfg) ''ipeds_program_counts_TEMPLATE.csv'')))"
  using assms missing_input_rebuilds[OF assms, of _ cfg "''peer_program_supply''"]
  by (simp add: peer_program_supply_script_def Let_def)

lemma tuition_missing:
  assumes "file_exists fs (file_path (output_tables cfg) ''market_labor_summary.csv'')"
    and "\<not> file_exists fs (file_path (internal_data_dir cfg) ''tuition_program_level.csv'')"
  shows "wage_vs_cost_context_script labor_names tuition_names fs cfg =
           ([Csv (file_path (output_tables cfg) ''tuition_program_level_TEMPLATE.csv'') template_tuition_names],
            Stopped (InputNotFound (file_path (internal_data_dir cfg) ''tuition_program_level.csv'')
                       (file_path (output_tables cfg) ''tuition_program_level_TEMPLATE.csv'')))"
  using assms missing_input_rebuilds[OF assms(2), of _ cfg "''wage_vs_cost_context''"]
  by (simp add: wage_vs_cost_context_script_def Let_def)

lemma tuition_and_labor_missing:
  assumes "\<not> file_exists fs (file_path (output_tables cfg) ''market_labor_summary.csv'')"
  shows "wage_vs_cost_context_script labor_names tuition_names fs cfg =
           ([], Stopped (UpstreamNotFound ''Labor market summary''
                           (file_path (output_tables cfg) ''market_labor_summary.csv'')))"
  using assms missing_input_rebuilds[OF assms, of _ cfg "''wage_vs_cost_context''"]
  by (simp add: wage_vs_cost_context_script_def Let_def)

lemma templates_have_schema:
  "validate_required_columns template_oews_names oews_required n1 = Inr ()
   \<and> validate_required_columns template_proj_names proj_required n2 = Inr ()
   \<and> select_columns template_proj_names proj_selected = Inr ()
   \<and> validate_required_columns template_credential_names credential_required n3 = Inr ()
   \<and> select_columns template_credential_names credential_selected = Inr ()
   \<and> validate_required_columns template_ipeds_names ipeds_required n4 = Inr ()
   \<and> validate_required_columns template_tuition_names tuition_required n5 = Inr ()
   \<and> select_columns template_tuition_names tuition_selected = Inr ()"
  by (simp add: validate_required_columns_def select_columns_def
      template_oews_names_def oews_required_def template_proj_names_def proj_required_def
      proj_selected_def template_credential_names_def credential_required_def credential_selected_def
      template_ipeds_names_def ipeds_required_def template_tuition_names_def tuition_required_def
      tuition_selected_def)

text \<open>
  C7, as the scripts have it. When an external input of a stage is absent and the files the
  stage checks before it are present (the OEWS table before the projections table, and the
  labor summary of the first stage before the tuition table), the stage writes one file, the
  template of that input, into the output tables directory and stops with an error that
  carries the missing path and the template path. Each template has the columns the stage
  validates and selects. When the labor summary is absent the wage-versus-cost stage stops
  on that, having written nothing. In every case where an external input is absent the stage
  stops and its primary table is not written.
\<close>

theorem missing_input_template:
  "(\<not> file_exists fs (file_path (market_data_dir cfg) ''bls_oews.csv'') \<longrightarrow>
      labor_market_trends_script oews_names proj_names fs cfg =
        ([Csv (file_path (output_tables cfg) ''bls_oews_TEMPLATE.csv'') template_oews_names],
         Stopped (InputNotFound (file_path (market_data_dir cfg) ''bls_oews.csv'')
                    (file_path (output_tables cfg) ''bls_oews_TEMPLATE.csv''))))
   \<and> (file_exists fs (file_path (market_data_dir cfg) ''bls_oews.csv'')
        \<and> \<not> file_exists fs (file_path (market_data_dir cfg) ''bls_projections.csv'') \<longrightarrow>
      labor_market_trends_script oews_names proj_names fs cfg =
        ([Csv (file_path (output_tables cfg) ''bls_projections_TEMPLATE.csv'') template_proj_names],
         Stopped (InputNotFound (file_path (market_data_dir cfg) ''bls_projections.csv'')
                    (file_path (output_tables cfg) ''bls_projections_TEMPLATE.csv''))))
   \<and> (\<not> file_exists fs (file_path (market_data_dir cfg) ''credential_pressure.csv'') \<longrightarrow>
      credential_pressure_script names credential_df fs cfg =
        ([Csv (file_path (output_tables cfg) ''credential_pressure_TEMPLATE.csv'') template_credential_names],
         Stopped (InputNotFound (file_path (market_data_dir cfg) ''credential_pressure.csv'')
                    (file_path (output_tables cfg) ''credential_pressure_TEMPLATE.csv''))))
   \<and> (\<not> file_exists fs (file_path (market_data_dir cfg) ''ipeds_program_counts.csv'') \<longrightarrow>
      peer_program_supply_script names fs cfg =
        ([Csv (file_path (output_tables cfg) ''ipeds_program_counts_TEMPLATE.csv'') template_ipeds_names],
         Stopped (InputNotFound (file_path (market_data_dir cfg) ''ipeds_program_counts.csv'')
                    (file_path (output_tables cfg) ''ipeds_program_counts_TEMPLATE.csv''))))
   \<and> (file_exists fs (file_path (output_tables cfg) ''market_labor_summary.csv'')
        \<and> \<not> file_exists fs (file_path (internal_data_dir cfg) ''tuition_program_level.csv'') \<longrightarrow>
      wage_vs_cost_context_script labor_names tuition_names fs cfg =
        ([Csv (file_path (output_tables cfg) ''tuition_program_level_TEMPLATE.csv'') template_tuition_names],
         Stopped (InputNotFound (file_path (internal_data_dir cfg) ''tuition_program_level.csv'')
                    (file_path (output_tables cfg) ''tuition_program_level_TEMPLATE.csv''))))
   \<and> (\<not> file_exists fs (file_path (output_tables cfg) ''market_labor_summary.csv'') \<longrightarrow>
      wage_vs_cost_context_script labor_names tuition_names fs cfg =
        ([], Stopped (UpstreamNotFound ''Labor market summary''
                        (file_path (output_tables cfg) ''market_labor_summary.csv''))))
   \<and> validate_required_columns template_oews_names oews_required n = Inr ()
   \<and> validate_required_columns template_proj_names proj_required n = Inr ()
   \<and> select_columns template_proj_names proj_selected = Inr ()
   \<and> validate_required_columns template_credential_names credential_required n = Inr ()
   \<and> select_columns template_credential_names credential_selected = Inr ()
   \<and> validate_required_columns template_ipeds_names ipeds_required n = Inr ()
   \<and> validate_required_columns template_tuition_names tuition_required n = Inr ()
   \<and> select_columns template_tuition_names tuition_selected = Inr ()
   \<and> (\<not> file_exists fs (file_path (market_data_dir cfg) ''bls_oews.csv'')
        \<or> \<not> file_exists fs (file_path (market_data_dir cfg) ''bls_projections.csv'') \<longrightarrow>
      (\<exists>e. snd (labor_market_trends_script oews_names proj_names fs cfg) = Stopped e)
      \<and> file_path (output_tables cfg) ''market_labor_summary.csv''
          \<notin> set (table_paths (fst (labor_market_trends_script oews_names proj_names fs cfg))))
   \<and> (\<not> file_exists fs (file_path (market_data_dir cfg) ''credential_pressure.csv'') \<longrightarrow>
      (\<exists>e. snd (credential_pressure_script names credential_df fs cfg) = Stopped e)
      \<and> file_path (output_tables cfg) ''credential_pressure_summary.csv''
          \<notin> set (table_paths (fst (credential_pressure_script names credential_df fs cfg))))
   \<and> (\<not> file_exists fs (file_path (market_data_dir cfg) ''ipeds_program_counts.csv'') \<longrightarrow>
      (\<exists>e. snd (peer_program_supply_script names fs cfg) = Stopped e)
      \<and> file_path (output_tables cfg) ''peer_program_supply.csv''
          \<notin> set (table_paths (fst (peer_program_supply_script names fs cfg))))
   \<and> (\<not> file_exists fs (file_path (internal_data_dir cfg) ''tuition_program_level.csv'') \<longrightarrow>
      (\<exists>e. snd (wage_vs_cost_context_script labor_names tuition_names fs cfg) = Stopped e)
      \<and> file_path (output_tables cfg) ''wage_vs_cost_context.csv''
          \<notin> set (table_paths (fst (wage_vs_cost_context_script labor_names tuition_names fs cfg))))"
proof -
  have labor: "(\<exists>e. snd (labor_market_trends_script oews_names proj_names fs cfg) = Stopped e)
      \<and> file_path (output_tables cfg) ''market_labor_summary.csv''
          \<notin> set (table_paths (fst (labor_market_trends_script oews_names proj_names fs cfg)))"
    if "\<not> file_exists fs (file_path (market_data_dir cfg) ''bls_oews.csv'')
        \<or> \<not> file_exists fs (file_path (market_data_dir cfg) ''bls_projections.csv'')"
  proof (cases "file_exists fs (file_path (market_data_dir cfg) ''bls_oews.csv'')")
    case True
    with that show ?thesis by (simp add: labor_proj_missing file_path_def)
  next
    case False
    then show ?thesis by (simp add: labor_oews_missing file_path_def)
  qed
  have wage: "(\<exists>e. snd (wage_vs_cost_context_script labor_names tuition_names fs cfg) = Stopped e)
      \<and> file_path (output_tables cfg) ''wage_vs_cost_context.csv''
          \<notin> set (table_paths (fst (wage_vs_cost_context_script labor_names tuition_names fs cfg)))"
    if "\<not> file_exists fs (file_path (internal_data_dir cfg) ''tuition_program_level.csv'')"
  proof (cases "file_exists fs (file_path (output_tables cfg) ''market_labor_summary.csv'')")
    case True
    with that show ?thesis by (simp add: tuition_missing file_path_def)
  next
    case False
    then show ?thesis by (simp add: tuition_and_labor_missing)
  qed
  have cred: "(\<exists>e. snd (credential_pressure_script names credential_df fs cfg) = Stopped e)
      \<and> file_path (output_tables cfg) ''credential_pressure_summary.csv''
          \<notin> set (table_paths (fst (credential_pressure_script names credential_df fs cfg)))"
    if "\<not> file_exists fs (file_path (market_data_dir cfg) ''credential_pressure.csv'')"
    using that by (simp add: credential_missing file_path_def)
  have peer: "(\<exists>e. snd (peer_program_supply_script names fs cfg) = Stopped e)
      \<and> file_path (output_tables cfg) ''peer_program_supply.csv''
          \<notin> set (table_paths (fst (peer_program_supply_script names fs cfg)))"
    if "\<not> file_exists fs (file_path (market_data_dir cfg) ''ipeds_program_counts.csv'')"
    using that by (simp add: ipeds_missing file_path_def)
  show ?thesis
    using labor wage cred peer templates_have_schema[of n n n n n]
      labor_oews_missing[of fs cfg oews_names proj_names]
      labor_proj_missing[of fs cfg oews_names proj_names]
      credential_missing[of fs cfg names credential_df]
      ipeds_missing[of fs cfg names]
      tuition_missing[of fs cfg labor_names tuition_names]
      tuition_and_labor_missing[of fs cfg labor_names tuition_names]
    by blast
qed

theorem missing_input_template_witness:
  "\<not> file_exists no_files (file_path (market_data_dir env_config) ''credential_pressure.csv'')
   \<and> credential_pressure_script template_credential_names template_credential no_files env_config =
       ([Csv ''output/tables/credential_pressure_TEMPLATE.csv'' template_credential_names],
        Stopped (InputNotFound ''/data/market/credential_pressure.csv''
                   ''output/tables/credential_pressure_TEMPLATE.csv''))"
proof -
  have a: "\<not> file_exists no_files (file_path (market_data_dir env_config) ''credential_pressure.csv'')"
    by (simp add: file_exists_def no_files_def)
  from missing_input_template[where fs = no_files and cfg = env_config
      and names = template_credential_names and credential_df = template_credential]
  show ?thesis using a by (simp add: env_config_def file_path_def)
qed

text \<open>
  C7, as stated, fails for the tuition table: on a machine where no stage has run and no
  input has been supplied the wage-versus-cost stage stops on the absent labor summary and
  writes no template.
\<close>

theorem tuition_template_not_written:
  "\<not> file_exists no_files (file_path (internal_data_dir env_config) ''tuition_program_level.csv'')
   \<and> wage_vs_cost_context_script labor_summary_names template_tuition_names no_files env_config
       = ([], Stopped (UpstreamNotFound ''Labor market summary'' ''output/tables/market_labor_summary.csv''))"
  by (simp add: tuition_and_labor_missing file_exists_def no_files_def env_config_def file_path_def)

subsection \<open>Ranges of the scores\<close>



































end
